theory Spec2Isabelle
  imports Main
begin

section \<open>The SDK boundary\<close>

text \<open>
  The adapter in \<^verbatim>\<open>src/edu_web/src/utils/agora-rtc-client.ts\<close> wraps a callback-based SDK.
  The SDK is opaque: what it answers to a call is an input of the model. A call that takes
  a success and a failure callback is answered by \<open>Ack\<close> (the success callback runs),
  \<open>Fail e\<close> (the failure callback runs with \<open>e\<close>) or \<open>Silent\<close> (neither ever runs).
  \<^verbatim>\<open>client.publish\<close> and \<^verbatim>\<open>client.unpublish\<close> take a failure callback only, and the
  adapter races it against a timer of its own: the answer says whether the failure callback
  runs, and on which side of the timer.
\<close>

type_synonym sdk_error = string

datatype reply = Ack | Fail sdk_error | Silent

datatype timed_failure = NoFailure | FailsBeforeTimer sdk_error | FailsAfterTimer sdk_error

text \<open>
  What an \<^verbatim>\<open>async\<close> method can reject with: a value handed over by the SDK, or the
  \<^verbatim>\<open>TypeError\<close> of a method call on \<^verbatim>\<open>null\<close>.
\<close>

datatype error = SdkError sdk_error | TypeError

text \<open>
  A promise is pending, resolved or rejected. \<^verbatim>\<open>resolve()\<close> and \<^verbatim>\<open>reject(err)\<close>
  settle a pending promise and do nothing to a settled one.
\<close>

datatype outcome = Pending | Resolved | Rejected error

fun resolve :: "outcome \<Rightarrow> outcome" where
  "resolve Pending = Resolved"
| "resolve p = p"

fun reject :: "error \<Rightarrow> outcome \<Rightarrow> outcome" where
  "reject e Pending = Rejected e"
| "reject e p = p"

text \<open>
  The promise of \<^verbatim>\<open>new Promise((resolve, reject) => sdkCall(..., resolve, reject))\<close>.
\<close>

fun settle :: "reply \<Rightarrow> outcome" where
  "settle Ack = resolve Pending"
| "settle (Fail e) = reject (SdkError e) Pending"
| "settle Silent = Pending"

text \<open>
  \<^verbatim>\<open>await p; rest\<close> inside an \<^verbatim>\<open>async\<close> method: \<open>rest\<close> runs once \<open>p\<close> has resolved; a
  rejection of \<open>p\<close> rejects the method; while \<open>p\<close> is pending the method is pending and
  \<open>rest\<close> never runs.
\<close>

definition await :: "outcome \<times> 'a \<Rightarrow> ('a \<Rightarrow> outcome \<times> 'a) \<Rightarrow> outcome \<times> 'a" where
  "await r rest =
     (case fst r of
        Resolved \<Rightarrow> rest (snd r)
      | Rejected e \<Rightarrow> (Rejected e, snd r)
      | Pending \<Rightarrow> (Pending, snd r))"

section \<open>Data model\<close>

record audio_output =
  volume :: int
  deviceId :: string

record AgoraStreamSpec =
  streamID :: int
  video :: bool
  audio :: bool
  mirror :: "bool option"
  screen :: "bool option"
  microphoneId :: "string option"
  cameraId :: "string option"
  audioOutput :: "audio_output option"

definition streamEvents :: "string list" where
  "streamEvents =
     [''accessAllowed'', ''accessDenied'', ''stopScreenSharing'', ''videoTrackEnded'',
      ''audioTrackEnded'', ''player-status-changed'']"

definition clientEvents :: "string list" where
  "clientEvents =
     [''stream-published'', ''stream-added'', ''stream-removed'', ''stream-subscribed'',
      ''peer-online'', ''peer-leave'', ''error'', ''network-type-changed'',
      ''network-quality'', ''exception'']"

definition SHARE_ID :: int where
  "SHARE_ID = 7"

text \<open>
  The calls a session makes on the SDK (\<^verbatim>\<open>AgoraRTC\<close>, its \<^verbatim>\<open>_client\<close>, its
  \<^verbatim>\<open>_localStream\<close>) and on the timer API, as a test double would record them. A remote
  stream is an SDK object; only its identity matters here. The numbers that serve as uids
  and stream ids are integers.
\<close>

type_synonym remote_stream = nat

datatype sdk_call =
    CreateClient
  | CreateStream AgoraStreamSpec
  | ClientInit string
  | ClientOn string
  | ClientOff string
  | ClientJoin int string
  | ClientLeave
  | ClientPublish "AgoraStreamSpec option"
  | ClientUnpublish "AgoraStreamSpec option"
  | ClientEnableDualStream
  | ClientSetAudioOutput string
  | ClientSubscribe remote_stream
  | ClientSetRemoteVideoStreamType remote_stream int
  | StreamInit
  | StreamOn string
  | StreamRemoveEventListener string
  | StreamIsPlaying
  | StreamStop
  | StreamClose
  | SetTimeout nat
  | SetInterval nat
  | ClearInterval

datatype console_line =
    InitClientLine
  | LocalStreamLine AgoraStreamSpec
  | SubscribeFailedLine sdk_error
  | PublishLocalStreamLine bool
  | UnpublishedLine bool
  | UnpublishStreamLine

text \<open>
  The fields of \<^verbatim>\<open>class AgoraRTCClient\<close>. \<open>cur_streamID\<close> is \<^verbatim>\<open>streamID\<close> (\<open>None\<close> is
  \<^verbatim>\<open>null\<close>), \<open>init_flag\<close>, \<open>joined_flag\<close> and \<open>published_flag\<close> are \<^verbatim>\<open>_init\<close>,
  \<^verbatim>\<open>_joined\<close> and \<^verbatim>\<open>_published\<close>, \<open>internalTimer\<close> says whether \<^verbatim>\<open>_internalTimer\<close>
  holds an interval handle, \<open>localStream\<close> is \<^verbatim>\<open>_localStream\<close> (the stream is
  represented by the options it was created with). \<^verbatim>\<open>_client\<close> is created with the
  session and never reassigned; it is represented by \<open>calls\<close>, the calls the session has
  made so far. The periodic \<^verbatim>\<open>getTransportStats\<close> polls of the interval and the event
  bus \<^verbatim>\<open>_bus\<close> are not part of the model.
\<close>

record session =
  cur_streamID :: "int option"
  init_flag :: bool
  joined_flag :: bool
  published_flag :: bool
  internalTimer :: bool
  localStream :: "AgoraStreamSpec option"
  calls :: "sdk_call list"
  console :: "console_line list"

text \<open>What the SDK answers to the calls of one session during one operation.\<close>

record sdk_env =
  init_reply :: reply
  stream_init_reply :: reply
  audio_output_reply :: reply
  join_reply :: reply
  leave_reply :: reply
  dual_reply :: reply
  publish_failure :: timed_failure
  unpublish_failure :: timed_failure
  playing :: bool

section \<open>AgoraRTCClient\<close>

definition new_AgoraRTCClient :: session where
  "new_AgoraRTCClient =
     \<lparr>cur_streamID = None, init_flag = False, joined_flag = False, published_flag = False,
      internalTimer = False, localStream = None, calls = [CreateClient], console = []\<rparr>"

definition call :: "sdk_call list \<Rightarrow> session \<Rightarrow> session" where
  "call cs s = s\<lparr>calls := calls s @ cs\<rparr>"

definition initClient :: "sdk_env \<Rightarrow> string \<Rightarrow> session \<Rightarrow> outcome \<times> session" where
  "initClient env appId s =
     (if init_flag s then (Resolved, s)
      else
        (let s1 = call [ClientInit appId] s in
         case init_reply env of
           Ack \<Rightarrow> (Resolved, s1\<lparr>init_flag := True, console := console s1 @ [InitClientLine]\<rparr>)
         | Fail e \<Rightarrow> (Rejected (SdkError e), s1)
         | Silent \<Rightarrow> (Pending, s1)))"

definition subscribeClientEvents :: "session \<Rightarrow> session" where
  "subscribeClientEvents s = call (map ClientOn clientEvents) s"

definition unsubscribeClientEvents :: "session \<Rightarrow> session" where
  "unsubscribeClientEvents s = call (map ClientOff clientEvents) s"

definition createClient :: "sdk_env \<Rightarrow> string \<Rightarrow> bool \<Rightarrow> session \<Rightarrow> outcome \<times> session" where
  "createClient env appId enableRtt s =
     await (initClient env appId s) (\<lambda>s1.
       (let s2 = subscribeClientEvents s1 in
        (Resolved,
         if enableRtt then (call [SetInterval 100] s2)\<lparr>internalTimer := True\<rparr> else s2)))"

definition destroyClient :: "session \<Rightarrow> session" where
  "destroyClient s = unsubscribeClientEvents s"

text \<open>
  \<^verbatim>\<open>subscribeLocalStreamEvents\<close> is only called from the success callback of
  \<^verbatim>\<open>_localStream.init\<close>, where \<^verbatim>\<open>_localStream\<close> has just been assigned.
\<close>

definition subscribeLocalStreamEvents :: "session \<Rightarrow> session" where
  "subscribeLocalStreamEvents s = call (map StreamOn streamEvents) s"

definition unsubscribeLocalStreamEvents :: "session \<Rightarrow> session" where
  "unsubscribeLocalStreamEvents s =
     (case localStream s of
        None \<Rightarrow> s
      | Some st \<Rightarrow> call (map StreamRemoveEventListener streamEvents) s)"

definition destroyLocalStream :: "sdk_env \<Rightarrow> session \<Rightarrow> session" where
  "destroyLocalStream env s =
     (let s1 = unsubscribeLocalStreamEvents s;
          s2 = (case localStream s1 of
                  None \<Rightarrow> s1
                | Some st \<Rightarrow>
                    call [StreamClose]
                      (if playing env then call [StreamIsPlaying, StreamStop] s1
                       else call [StreamIsPlaying] s1))
      in s2\<lparr>localStream := None, cur_streamID := Some 0\<rparr>)"

text \<open>
  \<^verbatim>\<open>publish\<close>, closure by closure: the executor of the promise, the failure callback
  handed to the SDK, and the callback of the 300 ms timer. \<open>publish\<close> runs them in the
  order the SDK's answer fixes and returns the promise and the session once the timer has
  fired.
\<close>

definition publish_executor :: "session \<Rightarrow> outcome \<times> session" where
  "publish_executor s =
     (if published_flag s then (resolve Pending, s)
      else (Pending, call [ClientPublish (localStream s), SetTimeout 300] s))"

definition publish_on_failure :: "sdk_error \<Rightarrow> outcome \<times> session \<Rightarrow> outcome \<times> session" where
  "publish_on_failure e ps = (reject (SdkError e) (fst ps), snd ps)"

definition publish_on_timer :: "outcome \<times> session \<Rightarrow> outcome \<times> session" where
  "publish_on_timer ps = (resolve (fst ps), (snd ps)\<lparr>published_flag := True\<rparr>)"

definition publish :: "sdk_env \<Rightarrow> session \<Rightarrow> outcome \<times> session" where
  "publish env s =
     (if published_flag s then publish_executor s
      else
        (case publish_failure env of
           NoFailure \<Rightarrow> publish_on_timer (publish_executor s)
         | FailsBeforeTimer e \<Rightarrow> publish_on_timer (publish_on_failure e (publish_executor s))
         | FailsAfterTimer e \<Rightarrow> publish_on_failure e (publish_on_timer (publish_executor s))))"

text \<open>\<^verbatim>\<open>unpublish\<close>, in the same three parts.\<close>

definition unpublish_executor :: "session \<Rightarrow> outcome \<times> session" where
  "unpublish_executor s =
     (if \<not> published_flag s \<or> localStream s = None then (resolve Pending, s)
      else (Pending, call [ClientUnpublish (localStream s), SetTimeout 300] s))"

definition unpublish_on_failure :: "sdk_error \<Rightarrow> outcome \<times> session \<Rightarrow> outcome \<times> session" where
  "unpublish_on_failure e ps = (reject (SdkError e) (fst ps), snd ps)"

definition unpublish_on_timer :: "sdk_env \<Rightarrow> outcome \<times> session \<Rightarrow> outcome \<times> session" where
  "unpublish_on_timer env ps =
     (resolve (fst ps), (destroyLocalStream env (snd ps))\<lparr>published_flag := False\<rparr>)"

definition unpublish :: "sdk_env \<Rightarrow> session \<Rightarrow> outcome \<times> session" where
  "unpublish env s =
     (if \<not> published_flag s \<or> localStream s = None then unpublish_executor s
      else
        (case unpublish_failure env of
           NoFailure \<Rightarrow> unpublish_on_timer env (unpublish_executor s)
         | FailsBeforeTimer e \<Rightarrow>
             unpublish_on_timer env (unpublish_on_failure e (unpublish_executor s))
         | FailsAfterTimer e \<Rightarrow>
             unpublish_on_failure e (unpublish_on_timer env (unpublish_executor s))))"

definition enableDualStream :: "sdk_env \<Rightarrow> session \<Rightarrow> outcome \<times> session" where
  "enableDualStream env s = (settle (dual_reply env), call [ClientEnableDualStream] s)"

definition setAudioOutput :: "sdk_env \<Rightarrow> string \<Rightarrow> session \<Rightarrow> outcome \<times> session" where
  "setAudioOutput env speakerId s =
     (settle (audio_output_reply env), call [ClientSetAudioOutput speakerId] s)"

text \<open>
  \<^verbatim>\<open>data.audioOutput && data.audioOutput.deviceId\<close>: the device id the spec carries, if it
  carries one (an empty string is falsy).
\<close>

definition audioOutputDevice :: "AgoraStreamSpec \<Rightarrow> string option" where
  "audioOutputDevice data =
     (case audioOutput data of
        None \<Rightarrow> None
      | Some ao \<Rightarrow> if deviceId ao = [] then None else Some (deviceId ao))"

text \<open>
  \<^verbatim>\<open>createLocalStream\<close>. In the success callback of \<^verbatim>\<open>_localStream.init\<close> the branch for
  the audio-output device only attaches \<^verbatim>\<open>then\<close> and \<^verbatim>\<open>catch\<close> handlers to the promise
  of \<^verbatim>\<open>setAudioOutput\<close>; handlers run after the callback has returned, so the
  \<^verbatim>\<open>resolve()\<close> that follows the \<^verbatim>\<open>if\<close> comes first.
\<close>

definition createLocalStream :: "sdk_env \<Rightarrow> AgoraStreamSpec \<Rightarrow> session \<Rightarrow> outcome \<times> session" where
  "createLocalStream env data s =
     (let stream = data\<lparr>mirror := Some False\<rparr>;
          s1 = (call [CreateStream stream] s)\<lparr>localStream := Some stream\<rparr>;
          s2 = call [StreamInit] (s1\<lparr>console := console s1 @ [LocalStreamLine stream]\<rparr>)
      in case stream_init_reply env of
           Fail e \<Rightarrow> (reject (SdkError e) Pending, s2)
         | Silent \<Rightarrow> (Pending, s2)
         | Ack \<Rightarrow>
             (let s3 = subscribeLocalStreamEvents (s2\<lparr>cur_streamID := Some (streamID data)\<rparr>)
              in case audioOutputDevice data of
                   None \<Rightarrow> (resolve Pending, s3)
                 | Some dev \<Rightarrow>
                     (let inner = setAudioOutput env dev s3;
                          p = resolve Pending
                      in (case fst inner of
                            Resolved \<Rightarrow> resolve p
                          | Rejected e \<Rightarrow> reject e p
                          | Pending \<Rightarrow> p,
                          snd inner))))"

definition setRemoteVideoStreamType :: "remote_stream \<Rightarrow> int \<Rightarrow> session \<Rightarrow> session" where
  "setRemoteVideoStreamType stream streamType s =
     call [ClientSetRemoteVideoStreamType stream streamType] s"

definition join :: "sdk_env \<Rightarrow> int \<Rightarrow> string \<Rightarrow> session \<Rightarrow> outcome \<times> session" where
  "join env uid channel s = (settle (join_reply env), call [ClientJoin uid channel] s)"

text \<open>
  \<^verbatim>\<open>leave\<close> tests \<^verbatim>\<open>this._client\<close> before it calls the SDK; the field is set when the
  session is created and nothing in the adapter clears it, so the test always passes.
\<close>

definition leave :: "sdk_env \<Rightarrow> session \<Rightarrow> outcome \<times> session" where
  "leave env s = (settle (leave_reply env), call [ClientLeave] s)"

text \<open>
  \<^verbatim>\<open>subscribe\<close> is synchronous and returns nothing; its failure callback writes one console
  line. The first component says how the call ends for the caller.
\<close>

datatype completion = Returned | Threw error

definition subscribe :: "reply \<Rightarrow> remote_stream \<Rightarrow> session \<Rightarrow> completion \<times> session" where
  "subscribe r stream s =
     (let s1 = call [ClientSubscribe stream] s
      in (Returned,
          case r of
            Fail e \<Rightarrow> s1\<lparr>console := console s1 @ [SubscribeFailedLine e]\<rparr>
          | Ack \<Rightarrow> s1
          | Silent \<Rightarrow> s1))"

definition destroy :: "sdk_env \<Rightarrow> session \<Rightarrow> session" where
  "destroy env s =
     (let s1 = (if internalTimer s then call [ClearInterval] s else s)
      in destroyLocalStream env (s1\<lparr>internalTimer := False\<rparr>))"

text \<open>\<^verbatim>\<open>exit\<close> of the session: \<^verbatim>\<open>await this.leave(); await this.destroy()\<close>.\<close>

definition session_exit :: "sdk_env \<Rightarrow> session \<Rightarrow> outcome \<times> session" where
  "session_exit env s = await (leave env s) (\<lambda>s1. (Resolved, destroy env s1))"

section \<open>AgoraWebClient\<close>

text \<open>
  The fields of \<^verbatim>\<open>class AgoraWebClient\<close>; \<open>shareClient = None\<close> is \<^verbatim>\<open>null\<close>. The
  coordinator's own console lines are kept in \<open>webConsole\<close>; its event bus is not part of
  the model.
\<close>

record coordinator =
  rtc :: session
  shareClient :: "session option"
  localUid :: int
  channel :: string
  shared :: bool
  joined :: bool
  published :: bool
  webConsole :: "console_line list"

definition new_AgoraWebClient :: coordinator where
  "new_AgoraWebClient =
     \<lparr>rtc = new_AgoraRTCClient, shareClient = None, localUid = 0, channel = [],
      shared = False, joined = False, published = False, webConsole = []\<rparr>"

text \<open>
  A method call on \<^verbatim>\<open>this.rtc\<close>, and one on \<^verbatim>\<open>this.shareClient\<close>, which throws a
  \<^verbatim>\<open>TypeError\<close> when the field is \<^verbatim>\<open>null\<close>. \<open>sync\<close> wraps a synchronous method:
  awaiting its result resolves at once.
\<close>

definition on_rtc :: "(session \<Rightarrow> outcome \<times> session) \<Rightarrow> coordinator \<Rightarrow> outcome \<times> coordinator" where
  "on_rtc m c = (let r = m (rtc c) in (fst r, c\<lparr>rtc := snd r\<rparr>))"

definition on_shareClient ::
  "(session \<Rightarrow> outcome \<times> session) \<Rightarrow> coordinator \<Rightarrow> outcome \<times> coordinator" where
  "on_shareClient m c =
     (case shareClient c of
        None \<Rightarrow> (Rejected TypeError, c)
      | Some sc \<Rightarrow> (let r = m sc in (fst r, c\<lparr>shareClient := Some (snd r)\<rparr>)))"

definition sync :: "(session \<Rightarrow> session) \<Rightarrow> session \<Rightarrow> outcome \<times> session" where
  "sync m s = (Resolved, m s)"

text \<open>
  \<^verbatim>\<open>APP_ID\<close> is read from the environment of the build; the operations that use it take
  it as their first argument.
\<close>

definition joinChannel ::
  "string \<Rightarrow> sdk_env \<Rightarrow> int \<Rightarrow> string \<Rightarrow> bool \<Rightarrow> coordinator \<Rightarrow> outcome \<times> coordinator" where
  "joinChannel APP_ID env uid ch dual c =
     (let c1 = c\<lparr>localUid := uid, channel := ch\<rparr> in
      await (on_rtc (createClient env APP_ID True) c1) (\<lambda>c2.
      await (on_rtc (join env (localUid c2) ch) c2) (\<lambda>c3.
      await (if dual then on_rtc (enableDualStream env) c3 else (Resolved, c3)) (\<lambda>c4.
      (Resolved, c4\<lparr>joined := True\<rparr>)))))"

definition unpublishLocalStream :: "sdk_env \<Rightarrow> coordinator \<Rightarrow> outcome \<times> coordinator" where
  "unpublishLocalStream env c =
     (let c1 = c\<lparr>webConsole := webConsole c @ [UnpublishStreamLine]\<rparr> in
      await (on_rtc (unpublish env) c1) (\<lambda>c2.
      (Resolved, c2\<lparr>published := False\<rparr>)))"

definition leaveChannel :: "sdk_env \<Rightarrow> coordinator \<Rightarrow> outcome \<times> coordinator" where
  "leaveChannel env c =
     (let c1 = c\<lparr>localUid := 0, channel := []\<rparr> in
      await (unpublishLocalStream env c1) (\<lambda>c2.
      await (on_rtc (leave env) c2) (\<lambda>c3.
      (let c4 = c3\<lparr>rtc := destroy env (rtc c3)\<rparr>;
           c5 = c4\<lparr>rtc := destroyClient (rtc c4)\<rparr>
       in (Resolved, c5\<lparr>joined := False\<rparr>)))))"

definition coordinator_enableDualStream :: "sdk_env \<Rightarrow> coordinator \<Rightarrow> outcome \<times> coordinator" where
  "coordinator_enableDualStream env c = on_rtc (enableDualStream env) c"

definition publishLocalStream ::
  "sdk_env \<Rightarrow> AgoraStreamSpec \<Rightarrow> coordinator \<Rightarrow> outcome \<times> coordinator" where
  "publishLocalStream env data c =
     (let c1 = c\<lparr>webConsole := webConsole c @ [PublishLocalStreamLine (published c)]\<rparr> in
      await
        (if published c1 then
           await (unpublishLocalStream env c1) (\<lambda>c2.
           (Resolved, c2\<lparr>webConsole := webConsole c2 @ [UnpublishedLine (published c2)]\<rparr>))
         else (Resolved, c1)) (\<lambda>c3.
      await (on_rtc (createLocalStream env data) c3) (\<lambda>c4.
      await (on_rtc (publish env) c4) (\<lambda>c5.
      (Resolved, c5\<lparr>published := True\<rparr>)))))"

definition shareStreamSpec :: AgoraStreamSpec where
  "shareStreamSpec =
     \<lparr>streamID = SHARE_ID, video = False, audio = True, mirror = None, screen = Some True,
      microphoneId = Some [], cameraId = Some [], audioOutput = None\<rparr>"

definition startScreenShare :: "string \<Rightarrow> sdk_env \<Rightarrow> coordinator \<Rightarrow> outcome \<times> coordinator" where
  "startScreenShare APP_ID env c =
     (let c1 = c\<lparr>shareClient := Some new_AgoraRTCClient\<rparr> in
      await (on_shareClient (createLocalStream env shareStreamSpec) c1) (\<lambda>c2.
      await (on_shareClient (createClient env APP_ID False) c2) (\<lambda>c3.
      await (on_shareClient (join env SHARE_ID (channel c3)) c3) (\<lambda>c4.
      await (on_shareClient (publish env) c4) (\<lambda>c5.
      (Resolved, c5\<lparr>shared := True\<rparr>))))))"

definition stopScreenShare :: "sdk_env \<Rightarrow> coordinator \<Rightarrow> outcome \<times> coordinator" where
  "stopScreenShare env c =
     await (on_shareClient (unpublish env) c) (\<lambda>c1.
     await (on_shareClient (leave env) c1) (\<lambda>c2.
     await (on_shareClient (sync (destroy env)) c2) (\<lambda>c3.
     await (on_shareClient (sync destroyClient) c3) (\<lambda>c4.
     (Resolved, c4\<lparr>shared := False\<rparr>)))))"

text \<open>
  \<^verbatim>\<open>exit\<close>: \<open>env\<close> answers the calls of the primary session, \<open>senv\<close> those of the
  screen-share session.
\<close>

definition exit :: "sdk_env \<Rightarrow> sdk_env \<Rightarrow> coordinator \<Rightarrow> outcome \<times> coordinator" where
  "exit env senv c =
     await (leaveChannel env c) (\<lambda>c1.
     await
       (if shared c1 then
          await (on_shareClient (unpublish senv) c1) (\<lambda>c2. on_shareClient (leave senv) c2)
        else (Resolved, c1)) (\<lambda>c3.
     (case shareClient c3 of
        None \<Rightarrow> (Resolved, c3)
      | Some sc \<Rightarrow>
          await (on_shareClient (sync (destroy senv)) c3) (\<lambda>c4.
          on_shareClient (sync destroyClient) c4))))"

definition coordinator_subscribe ::
  "reply \<Rightarrow> remote_stream \<Rightarrow> coordinator \<Rightarrow> completion \<times> coordinator" where
  "coordinator_subscribe r stream c =
     (let res = subscribe r stream (rtc c) in (fst res, c\<lparr>rtc := snd res\<rparr>))"

definition coordinator_setRemoteVideoStreamType ::
  "remote_stream \<Rightarrow> int \<Rightarrow> coordinator \<Rightarrow> coordinator" where
  "coordinator_setRemoteVideoStreamType stream type c =
     c\<lparr>rtc := setRemoteVideoStreamType stream type (rtc c)\<rparr>"

text \<open>
  A run of the coordinator: operations called one after the other on a new coordinator,
  each with the answers the SDK gives during it. Operations do not overlap (the adapter
  has no mutual exclusion of its own), and the 300 ms timer of one operation has fired
  before the next one starts. \<^verbatim>\<open>getDevices\<close> and \<^verbatim>\<open>createPreviewStream\<close> read and write
  no field of the coordinator or of its sessions (they work on a session and a stream of
  their own, local to the call), so a run need not list them.
\<close>

datatype operation =
    JoinChannel sdk_env int string bool
  | LeaveChannel sdk_env
  | EnableDualStream sdk_env
  | PublishLocalStream sdk_env AgoraStreamSpec
  | UnpublishLocalStream sdk_env
  | StartScreenShare sdk_env
  | StopScreenShare sdk_env
  | Exit sdk_env sdk_env
  | Subscribe reply remote_stream
  | SetRemoteVideoStreamType remote_stream int

fun perform :: "string \<Rightarrow> operation \<Rightarrow> coordinator \<Rightarrow> coordinator" where
  "perform APP_ID (JoinChannel env uid ch dual) c = snd (joinChannel APP_ID env uid ch dual c)"
| "perform APP_ID (LeaveChannel env) c = snd (leaveChannel env c)"
| "perform APP_ID (EnableDualStream env) c = snd (coordinator_enableDualStream env c)"
| "perform APP_ID (PublishLocalStream env data) c = snd (publishLocalStream env data c)"
| "perform APP_ID (UnpublishLocalStream env) c = snd (unpublishLocalStream env c)"
| "perform APP_ID (StartScreenShare env) c = snd (startScreenShare APP_ID env c)"
| "perform APP_ID (StopScreenShare env) c = snd (stopScreenShare env c)"
| "perform APP_ID (Exit env senv) c = snd (exit env senv c)"
| "perform APP_ID (Subscribe r stream) c = snd (coordinator_subscribe r stream c)"
| "perform APP_ID (SetRemoteVideoStreamType stream type) c =
     coordinator_setRemoteVideoStreamType stream type c"

definition run :: "string \<Rightarrow> operation list \<Rightarrow> coordinator" where
  "run APP_ID ops = foldl (\<lambda>c op. perform APP_ID op c) new_AgoraWebClient ops"

section \<open>Observations and concrete inputs\<close>

text \<open>
  The uids of the \<^verbatim>\<open>client.join\<close> calls in a log, and the log of the screen-share session
  of a coordinator (empty when there is none).
\<close>

primrec join_uids :: "sdk_call list \<Rightarrow> int list" where
  "join_uids [] = []"
| "join_uids (x # cs) = (case x of ClientJoin uid ch \<Rightarrow> [uid] | _ \<Rightarrow> []) @ join_uids cs"

definition share_calls :: "coordinator \<Rightarrow> sdk_call list" where
  "share_calls c = (case shareClient c of None \<Rightarrow> [] | Some sc \<Rightarrow> calls sc)"

text \<open>The calls of \<^verbatim>\<open>destroyLocalStream\<close> on a session that holds a local stream.\<close>

definition stream_teardown_calls :: "sdk_env \<Rightarrow> sdk_call list" where
  "stream_teardown_calls env =
     map StreamRemoveEventListener streamEvents @ [StreamIsPlaying] @
     (if playing env then [StreamStop] else []) @ [StreamClose]"

text \<open>
  An SDK that acknowledges every call, and the same SDK with one call failing; a camera
  stream, and the same stream with an audio-output device; sessions and coordinators
  reached from new ones by the operations themselves.
\<close>

definition ok_env :: sdk_env where
  "ok_env =
     \<lparr>init_reply = Ack, stream_init_reply = Ack, audio_output_reply = Ack, join_reply = Ack,
      leave_reply = Ack, dual_reply = Ack, publish_failure = NoFailure,
      unpublish_failure = NoFailure, playing = False\<rparr>"

definition publish_fails_env :: sdk_env where
  "publish_fails_env = ok_env\<lparr>publish_failure := FailsBeforeTimer ''PUBLISH_STREAM_FAILED''\<rparr>"

definition unpublish_fails_env :: sdk_env where
  "unpublish_fails_env = ok_env\<lparr>unpublish_failure := FailsBeforeTimer ''UNPUBLISH_STREAM_FAILED''\<rparr>"

definition speaker_fails_env :: sdk_env where
  "speaker_fails_env = ok_env\<lparr>audio_output_reply := Fail ''NOT_SUPPORTED''\<rparr>"

definition leave_fails_env :: sdk_env where
  "leave_fails_env = ok_env\<lparr>leave_reply := Fail ''LEAVE_FAILED''\<rparr>"

definition stream_init_fails_env :: sdk_env where
  "stream_init_fails_env = ok_env\<lparr>stream_init_reply := Fail ''NotAllowedError''\<rparr>"

definition camera_spec :: AgoraStreamSpec where
  "camera_spec =
     \<lparr>streamID = 42, video = True, audio = True, mirror = None, screen = None,
      microphoneId = None, cameraId = None, audioOutput = None\<rparr>"

definition speaker_spec :: AgoraStreamSpec where
  "speaker_spec = camera_spec\<lparr>audioOutput := Some \<lparr>volume = 50, deviceId = ''speaker-1''\<rparr>\<rparr>"

definition ready_session :: session where
  "ready_session = snd (createLocalStream ok_env camera_spec new_AgoraRTCClient)"

definition published_session :: session where
  "published_session = snd (publish ok_env ready_session)"

definition joined_coordinator :: coordinator where
  "joined_coordinator = snd (joinChannel ''app'' ok_env 42 ''room1'' False new_AgoraWebClient)"

definition publishing_coordinator :: coordinator where
  "publishing_coordinator = snd (publishLocalStream ok_env camera_spec joined_coordinator)"

definition sharing_coordinator :: coordinator where
  "sharing_coordinator = snd (startScreenShare ''app'' ok_env joined_coordinator)"

definition sharing_session :: session where
  "sharing_session =
     snd (publish ok_env (snd (join ok_env SHARE_ID ''room1''
       (snd (createClient ok_env ''app'' False
         (snd (createLocalStream ok_env shareStreamSpec new_AgoraRTCClient)))))))"

definition uid7_coordinator :: coordinator where
  "uid7_coordinator = snd (joinChannel ''app'' ok_env 7 ''room1'' False new_AgoraWebClient)"

definition share_ops :: "operation list" where
  "share_ops = [JoinChannel ok_env 42 ''room1'' False, StartScreenShare ok_env]"

definition failed_restart_ops :: "operation list" where
  "failed_restart_ops = share_ops @ [StartScreenShare stream_init_fails_env]"

text \<open>
  The state a \<^verbatim>\<open>startScreenShare\<close> that resolved leaves the screen-share session in, on
  channel \<open>ch\<close>: the four awaited steps of the method, each answered with success. A
  coordinator's screen-share session is \<open>completed\<close> when it is in that state, for the
  channel its log says it joined (\<open>join_channels\<close> lists the channels of the
  \<^verbatim>\<open>client.join\<close> calls of a log).
\<close>

primrec join_channels :: "sdk_call list \<Rightarrow> string list" where
  "join_channels [] = []"
| "join_channels (x # cs) = (case x of ClientJoin uid ch \<Rightarrow> [ch] | _ \<Rightarrow> []) @ join_channels cs"

definition started_session :: "string \<Rightarrow> string \<Rightarrow> session" where
  "started_session A ch =
     snd (publish ok_env (snd (join ok_env SHARE_ID ch
       (snd (createClient ok_env A False
         (snd (createLocalStream ok_env shareStreamSpec new_AgoraRTCClient)))))))"

definition share_completed :: "string \<Rightarrow> coordinator \<Rightarrow> bool" where
  "share_completed A c =
     (case shareClient c of
        None \<Rightarrow> False
      | Some sc \<Rightarrow> sc = started_session A (concat (join_channels (calls sc))))"

text \<open>
  The operations that work on the screen-share session or on \<open>shared\<close>; and the runs in
  which, while \<open>shared\<close> is true, every \<^verbatim>\<open>startScreenShare\<close> and \<^verbatim>\<open>stopScreenShare\<close>
  resolves and \<^verbatim>\<open>exit\<close> is not called. \<open>share_untouched\<close> and \<open>completed_inv\<close> follow
  the screen-share fields through an operation of the other kind and through such a run.
\<close>

fun touches_share :: "operation \<Rightarrow> bool" where
  "touches_share (StartScreenShare env) = True"
| "touches_share (StopScreenShare env) = True"
| "touches_share (Exit env senv) = True"
| "touches_share op = False"

fun disciplined_op :: "string \<Rightarrow> operation \<Rightarrow> coordinator \<Rightarrow> bool" where
  "disciplined_op A (StartScreenShare env) c =
     (\<not> shared c \<or> fst (startScreenShare A env c) = Resolved)"
| "disciplined_op A (StopScreenShare env) c =
     (\<not> shared c \<or> fst (stopScreenShare env c) = Resolved)"
| "disciplined_op A (Exit env senv) c = (\<not> shared c)"
| "disciplined_op A op c = True"

fun disciplined :: "string \<Rightarrow> coordinator \<Rightarrow> operation list \<Rightarrow> bool" where
  "disciplined A c [] = True"
| "disciplined A c (op # ops) = (disciplined_op A op c \<and> disciplined A (perform A op c) ops)"

definition share_untouched :: "coordinator \<Rightarrow> coordinator \<Rightarrow> bool" where
  "share_untouched c x = (shared x = shared c \<and> shareClient x = shareClient c)"

definition completed_inv :: "string \<Rightarrow> coordinator \<Rightarrow> bool" where
  "completed_inv A c = (shared c \<longrightarrow> share_completed A c)"

definition persist_ops :: "operation list" where
  "persist_ops =
     share_ops @ [PublishLocalStream ok_env camera_spec, Subscribe (Fail ''SUBSCRIBE_FAILED'') 3,
                  LeaveChannel ok_env]"

text \<open>
  Two relations used to follow the screen-share fields through an operation: the
  invariant itself, and "the operation left \<open>shared\<close> alone and did not create or drop the
  screen-share session".
\<close>

definition share_inv :: "coordinator \<Rightarrow> bool" where
  "share_inv c = (shared c \<longrightarrow> shareClient c \<noteq> None)"

definition same_share :: "coordinator \<Rightarrow> coordinator \<Rightarrow> bool" where
  "same_share c x = (shared x = shared c \<and> (shareClient x = None) = (shareClient c = None))"

section \<open>Auxiliary facts\<close>

lemmas session_defs =
  publish_def publish_executor_def publish_on_failure_def publish_on_timer_def
  unpublish_def unpublish_executor_def unpublish_on_failure_def unpublish_on_timer_def
  destroyLocalStream_def unsubscribeLocalStreamEvents_def subscribeLocalStreamEvents_def
  subscribeClientEvents_def unsubscribeClientEvents_def destroyClient_def
  call_def createLocalStream_def audioOutputDevice_def setAudioOutput_def destroy_def
  initClient_def createClient_def join_def leave_def enableDualStream_def
  new_AgoraRTCClient_def Let_def

lemmas coordinator_defs =
  on_rtc_def on_shareClient_def sync_def joinChannel_def unpublishLocalStream_def
  leaveChannel_def publishLocalStream_def startScreenShare_def stopScreenShare_def
  exit_def shareStreamSpec_def new_AgoraWebClient_def

lemmas example_defs =
  ok_env_def publish_fails_env_def unpublish_fails_env_def speaker_fails_env_def
  leave_fails_env_def stream_init_fails_env_def camera_spec_def speaker_spec_def
  ready_session_def published_session_def
  joined_coordinator_def publishing_coordinator_def sharing_coordinator_def
  sharing_session_def uid7_coordinator_def share_ops_def failed_restart_ops_def

lemma await_simps [simp]:
  "await (Resolved, x) k = k x"
  "await (Rejected e, x) k = (Rejected e, x)"
  "await (Pending, x) k = (Pending, x)"
  by (simp_all add: await_def)

lemma join_uids_append [simp]: "join_uids (xs @ ys) = join_uids xs @ join_uids ys"
  by (induction xs) auto

lemma join_uids_map [simp]:
  "join_uids (map ClientOn es) = []"
  "join_uids (map ClientOff es) = []"
  "join_uids (map StreamOn es) = []"
  "join_uids (map StreamRemoveEventListener es) = []"
  by (induction es) auto

lemma createLocalStream_outcome:
  "fst (createLocalStream env data s) = settle (stream_init_reply env)"
  by (simp add: session_defs split: reply.split option.split outcome.split)

subsection \<open>Fields an awaited sequence leaves alone\<close>

lemma await_preserves:
  assumes "P (snd r)" and "\<And>x. P x \<Longrightarrow> P (snd (k x))"
  shows "P (snd (await r k))"
proof (cases "fst r")
  case Resolved
  with assms show ?thesis by (simp add: await_def)
next
  case Pending
  with assms(1) show ?thesis by (simp add: await_def)
next
  case (Rejected e)
  with assms(1) show ?thesis by (simp add: await_def)
qed

lemmas await_same = await_preserves [where P = "same_share c"] for c

lemmas await_has_share = await_preserves [where P = "\<lambda>x. shareClient x \<noteq> None"]

lemma on_localUid [simp]:
  "localUid (snd (on_rtc m c)) = localUid c"
  "localUid (snd (on_shareClient m c)) = localUid c"
  by (simp_all add: on_rtc_def on_shareClient_def Let_def split: option.split)

lemma joinChannel_localUid: "localUid (snd (joinChannel A env uid ch dual c)) = uid"
  unfolding joinChannel_def Let_def
  by (intro await_preserves [where P = "\<lambda>x. localUid x = uid"]) simp_all

lemma startScreenShare_localUid: "localUid (snd (startScreenShare A env c)) = localUid c"
  unfolding startScreenShare_def Let_def
  by (intro await_preserves [where P = "\<lambda>x. localUid x = localUid c"]) simp_all

lemma same_share_refl [simp]: "same_share c c"
  by (simp add: same_share_def)

lemma same_share_on [simp]:
  "same_share c (snd (on_rtc m x)) = same_share c x"
  "same_share c (snd (on_shareClient m x)) = same_share c x"
  by (simp_all add: same_share_def on_rtc_def on_shareClient_def Let_def split: option.split)

lemma same_share_update [simp]:
  "same_share c (x\<lparr>localUid := u\<rparr>) = same_share c x"
  "same_share c (x\<lparr>channel := ch\<rparr>) = same_share c x"
  "same_share c (x\<lparr>joined := j\<rparr>) = same_share c x"
  "same_share c (x\<lparr>published := p\<rparr>) = same_share c x"
  "same_share c (x\<lparr>webConsole := w\<rparr>) = same_share c x"
  "same_share c (x\<lparr>rtc := r\<rparr>) = same_share c x"
  by (simp_all add: same_share_def)

lemma same_share_inv: "share_inv c \<Longrightarrow> same_share c x \<Longrightarrow> share_inv x"
  by (simp add: share_inv_def same_share_def)

lemma unpublishLocalStream_same:
  "same_share c x \<Longrightarrow> same_share c (snd (unpublishLocalStream env x))"
  unfolding unpublishLocalStream_def Let_def
  by (rule await_same) simp_all

lemma leaveChannel_same: "same_share c x \<Longrightarrow> same_share c (snd (leaveChannel env x))"
  unfolding leaveChannel_def Let_def
  by (intro await_same unpublishLocalStream_same) simp_all

lemma joinChannel_same:
  "same_share c x \<Longrightarrow> same_share c (snd (joinChannel A env uid ch dual x))"
  unfolding joinChannel_def Let_def
  by (intro await_same) simp_all

lemma publishLocalStream_same:
  "same_share c x \<Longrightarrow> same_share c (snd (publishLocalStream env data x))"
  unfolding publishLocalStream_def Let_def
proof (intro await_same)
  assume "same_share c x"
  then show "same_share c
     (snd (if published (x\<lparr>webConsole := webConsole x @ [PublishLocalStreamLine (published x)]\<rparr>)
           then await
                  (unpublishLocalStream env
                    (x\<lparr>webConsole := webConsole x @ [PublishLocalStreamLine (published x)]\<rparr>))
                  (\<lambda>c2. (Resolved,
                           c2\<lparr>webConsole := webConsole c2 @ [UnpublishedLine (published c2)]\<rparr>))
           else (Resolved,
                 x\<lparr>webConsole := webConsole x @ [PublishLocalStreamLine (published x)]\<rparr>)))"
    by (auto intro!: await_same unpublishLocalStream_same)
qed simp_all

lemma exit_same: "same_share c x \<Longrightarrow> same_share c (snd (exit env senv x))"
  unfolding exit_def
proof (intro await_same leaveChannel_same)
  fix y assume "same_share c y"
  then show "same_share c (snd (if shared y
      then await (on_shareClient (unpublish senv) y) (\<lambda>c2. on_shareClient (leave senv) c2)
      else (Resolved, y)))"
    by (auto intro!: await_same)
next
  fix y assume "same_share c y"
  then show "same_share c (snd (case shareClient y of None \<Rightarrow> (Resolved, y)
      | Some sc \<Rightarrow> await (on_shareClient (sync (destroy senv)) y)
          (\<lambda>c4. on_shareClient (sync destroyClient) c4)))"
    by (auto intro!: await_same split: option.split)
qed simp_all

subsection \<open>The screen-share session is never dropped\<close>

lemma on_shareClient_has_share:
  "shareClient x \<noteq> None \<Longrightarrow> shareClient (snd (on_shareClient m x)) \<noteq> None"
  by (simp add: on_shareClient_def Let_def split: option.split)

lemma startScreenShare_has_share: "shareClient (snd (startScreenShare A env c)) \<noteq> None"
  unfolding startScreenShare_def Let_def
  by (intro await_has_share on_shareClient_has_share) simp_all

lemma stopScreenShare_no_share:
  "shareClient c = None \<Longrightarrow> stopScreenShare env c = (Rejected TypeError, c)"
  by (simp add: stopScreenShare_def on_shareClient_def)

lemma stopScreenShare_has_share:
  "shareClient c \<noteq> None \<Longrightarrow> shareClient (snd (stopScreenShare env c)) \<noteq> None"
  unfolding stopScreenShare_def
  by (intro await_has_share on_shareClient_has_share) simp_all

lemma perform_share_inv: "share_inv c \<Longrightarrow> share_inv (perform A op c)"
proof (cases op)
  case (StartScreenShare env)
  then show ?thesis using startScreenShare_has_share [of A env c]
    by (simp add: share_inv_def)
next
  case (StopScreenShare env)
  assume inv: "share_inv c"
  show ?thesis
  proof (cases "shareClient c")
    case None
    with inv StopScreenShare show ?thesis by (simp add: stopScreenShare_no_share)
  next
    case (Some sc)
    then have "shareClient (snd (stopScreenShare env c)) \<noteq> None"
      by (intro stopScreenShare_has_share) simp
    with StopScreenShare show ?thesis by (simp add: share_inv_def)
  qed
next
  case (JoinChannel env uid ch dual)
  assume "share_inv c"
  then show ?thesis using JoinChannel
    by (auto intro: same_share_inv [OF _ joinChannel_same])
next
  case (LeaveChannel env)
  assume "share_inv c"
  then show ?thesis using LeaveChannel
    by (auto intro: same_share_inv [OF _ leaveChannel_same])
next
  case (EnableDualStream env)
  assume "share_inv c"
  then show ?thesis using EnableDualStream
    by (auto intro: same_share_inv simp add: coordinator_enableDualStream_def)
next
  case (PublishLocalStream env data)
  assume "share_inv c"
  then show ?thesis using PublishLocalStream
    by (auto intro: same_share_inv [OF _ publishLocalStream_same])
next
  case (UnpublishLocalStream env)
  assume "share_inv c"
  then show ?thesis using UnpublishLocalStream
    by (auto intro: same_share_inv [OF _ unpublishLocalStream_same])
next
  case (Exit env senv)
  assume "share_inv c"
  then show ?thesis using Exit
    by (auto intro: same_share_inv [OF _ exit_same])
next
  case (Subscribe r stream)
  assume "share_inv c"
  then show ?thesis using Subscribe
    by (simp add: share_inv_def coordinator_subscribe_def Let_def)
next
  case (SetRemoteVideoStreamType stream type)
  assume "share_inv c"
  then show ?thesis using SetRemoteVideoStreamType
    by (simp add: share_inv_def coordinator_setRemoteVideoStreamType_def)
qed

lemma foldl_share_inv:
  "share_inv c \<Longrightarrow> share_inv (foldl (\<lambda>c op. perform A op c) c ops)"
  by (induction ops arbitrary: c) (simp_all add: perform_share_inv)

lemma run_share_inv: "share_inv (run A ops)"
  unfolding run_def
  by (rule foldl_share_inv) (simp add: share_inv_def new_AgoraWebClient_def)

subsection \<open>startScreenShare and leaveChannel, step by step\<close>

lemma startScreenShare_resolved:
  assumes "fst (startScreenShare A env c) = Resolved"
  shows "snd (startScreenShare A env c) =
           c\<lparr>shareClient :=
                Some (new_AgoraRTCClient
                  \<lparr>cur_streamID := Some SHARE_ID,
                   init_flag := True,
                   published_flag := True,
                   localStream := Some (shareStreamSpec\<lparr>mirror := Some False\<rparr>),
                   calls :=
                     [CreateClient, CreateStream (shareStreamSpec\<lparr>mirror := Some False\<rparr>),
                      StreamInit] @ map StreamOn streamEvents @ [ClientInit A] @
                     map ClientOn clientEvents @
                     [ClientJoin SHARE_ID (channel c),
                      ClientPublish (Some (shareStreamSpec\<lparr>mirror := Some False\<rparr>)),
                      SetTimeout 300],
                   console := [LocalStreamLine (shareStreamSpec\<lparr>mirror := Some False\<rparr>),
                               InitClientLine]\<rparr>),
              shared := True\<rparr>"
proof (cases "stream_init_reply env")
  case Ack
  note a1 = this
  show ?thesis
  proof (cases "init_reply env")
    case Ack
    note a2 = this
    show ?thesis
    proof (cases "join_reply env")
      case Ack
      with a1 a2 assms show ?thesis
        by (cases "publish_failure env") (simp_all add: coordinator_defs session_defs)
    qed (use a1 a2 assms in \<open>simp_all add: coordinator_defs session_defs\<close>)
  qed (use a1 assms in \<open>simp_all add: coordinator_defs session_defs\<close>)
qed (use assms in \<open>simp_all add: coordinator_defs session_defs\<close>)

lemma startScreenShare_join_uids:
  "set (join_uids (share_calls (snd (startScreenShare A env c)))) \<subseteq> {SHARE_ID}"
proof (cases "stream_init_reply env")
  case Ack
  note a1 = this
  show ?thesis
  proof (cases "init_reply env")
    case Ack
    note a2 = this
    show ?thesis
    proof (cases "join_reply env")
      case Ack
      with a1 a2 show ?thesis
        by (cases "publish_failure env")
           (simp_all add: coordinator_defs session_defs share_calls_def)
    qed (use a1 a2 in \<open>simp_all add: coordinator_defs session_defs share_calls_def\<close>)
  qed (use a1 in \<open>simp_all add: coordinator_defs session_defs share_calls_def\<close>)
qed (simp_all add: coordinator_defs session_defs share_calls_def)

lemma leaveChannel_resolved_state:
  assumes "fst (leaveChannel env c) = Resolved"
  shows "snd (leaveChannel env c) =
           c\<lparr>localUid := 0, channel := [],
             webConsole := webConsole c @ [UnpublishStreamLine],
             rtc := destroyClient (destroy env (snd (leave env (snd (unpublish env (rtc c)))))),
             published := False, joined := False\<rparr>"
proof (cases "unpublish env (rtc c)")
  case (Pair r s')
  show ?thesis
  proof (cases r)
    case Resolved
    with Pair assms show ?thesis
      by (cases "leave_reply env")
         (simp_all add: leaveChannel_def unpublishLocalStream_def on_rtc_def leave_def Let_def)
  next
    case Pending
    with Pair assms show ?thesis
      by (simp add: leaveChannel_def unpublishLocalStream_def on_rtc_def Let_def)
  next
    case (Rejected e)
    with Pair assms show ?thesis
      by (simp add: leaveChannel_def unpublishLocalStream_def on_rtc_def Let_def)
  qed
qed

lemma teardown_calls:
  "calls (destroyClient (destroy env (snd (leave env (snd (unpublish env s)))))) =
     calls s @
     (if published_flag s \<and> localStream s \<noteq> None
      then [ClientUnpublish (localStream s), SetTimeout 300] @ stream_teardown_calls env
      else []) @
     [ClientLeave] @
     (if internalTimer s then [ClearInterval] else []) @
     (if \<not> published_flag s \<and> localStream s \<noteq> None then stream_teardown_calls env else []) @
     map ClientOff clientEvents"
  by (cases "unpublish_failure env")
     (auto simp add: session_defs stream_teardown_calls_def)

lemma teardown_localStream:
  "localStream (destroyClient (destroy env (snd (leave env (snd (unpublish env s)))))) = None"
  by (simp add: session_defs)

lemma leaveChannel_without_stream:
  assumes "localStream (rtc c) = None"
  shows "fst (leaveChannel env c) = settle (leave_reply env)"
  using assms
  by (cases "leave_reply env")
     (simp_all add: leaveChannel_def unpublishLocalStream_def on_rtc_def leave_def Let_def
       unpublish_def unpublish_executor_def)

lemma settle_not_TypeError: "settle r \<noteq> Rejected TypeError"
  by (cases r) simp_all

text \<open>
  \<^verbatim>\<open>leaveChannel\<close> resolves from every state, provided the SDK acknowledges the leave
  and reports no unpublish failure ahead of the timer.
\<close>

lemma leaveChannel_resolves:
  assumes "leave_reply env = Ack" and "\<And>e. unpublish_failure env \<noteq> FailsBeforeTimer e"
  shows "fst (leaveChannel env c) = Resolved"
proof (cases "unpublish_failure env")
  case (FailsBeforeTimer e)
  with assms(2) show ?thesis by blast
qed (use assms(1) in
      \<open>simp_all add: leaveChannel_def unpublishLocalStream_def on_rtc_def session_defs\<close>)

subsection \<open>The screen-share session through a run, and the calls of destroy\<close>

lemma join_channels_append [simp]:
  "join_channels (xs @ ys) = join_channels xs @ join_channels ys"
  by (induction xs) auto

lemma join_channels_map [simp]:
  "join_channels (map ClientOn es) = []"
  "join_channels (map ClientOff es) = []"
  "join_channels (map StreamOn es) = []"
  "join_channels (map StreamRemoveEventListener es) = []"
  by (induction es) auto

lemma started_session_eq:
  "started_session A ch =
     new_AgoraRTCClient
       \<lparr>cur_streamID := Some SHARE_ID,
        init_flag := True,
        published_flag := True,
        localStream := Some (shareStreamSpec\<lparr>mirror := Some False\<rparr>),
        calls :=
          [CreateClient, CreateStream (shareStreamSpec\<lparr>mirror := Some False\<rparr>),
           StreamInit] @ map StreamOn streamEvents @ [ClientInit A] @
          map ClientOn clientEvents @
          [ClientJoin SHARE_ID ch,
           ClientPublish (Some (shareStreamSpec\<lparr>mirror := Some False\<rparr>)),
           SetTimeout 300],
        console := [LocalStreamLine (shareStreamSpec\<lparr>mirror := Some False\<rparr>),
                    InitClientLine]\<rparr>"
  by (simp add: started_session_def session_defs coordinator_defs ok_env_def)

lemma started_session_channel: "concat (join_channels (calls (started_session A ch))) = ch"
  by (simp add: started_session_eq new_AgoraRTCClient_def)

lemma startScreenShare_resolved_session:
  assumes "fst (startScreenShare A env c) = Resolved"
  shows "snd (startScreenShare A env c) =
           c\<lparr>shareClient := Some (started_session A (channel c)), shared := True\<rparr>"
  by (simp add: startScreenShare_resolved [OF assms] started_session_eq)

lemma startScreenShare_shared_flag:
  "shared (snd (startScreenShare A env c)) =
     (if fst (startScreenShare A env c) = Resolved then True else shared c)"
proof (cases "stream_init_reply env")
  case Ack
  note a1 = this
  show ?thesis
  proof (cases "init_reply env")
    case Ack
    note a2 = this
    show ?thesis
    proof (cases "join_reply env")
      case Ack
      with a1 a2 show ?thesis
        by (cases "publish_failure env") (simp_all add: coordinator_defs session_defs)
    qed (use a1 a2 in \<open>simp_all add: coordinator_defs session_defs\<close>)
  qed (use a1 in \<open>simp_all add: coordinator_defs session_defs\<close>)
qed (simp_all add: coordinator_defs session_defs)

lemma stopScreenShare_shared_flag:
  "shared (snd (stopScreenShare env c)) =
     (if fst (stopScreenShare env c) = Resolved then False else shared c)"
proof (cases "shareClient c")
  case None
  then show ?thesis by (simp add: stopScreenShare_no_share)
next
  case (Some sc)
  show ?thesis
  proof (cases "unpublish env sc")
    case (Pair r s')
    show ?thesis
    proof (cases r)
      case Resolved
      with Pair Some show ?thesis
        by (cases "leave_reply env")
           (simp_all add: stopScreenShare_def on_shareClient_def leave_def sync_def Let_def)
    next
      case Pending
      with Pair Some show ?thesis
        by (simp add: stopScreenShare_def on_shareClient_def Let_def)
    next
      case (Rejected e)
      with Pair Some show ?thesis
        by (simp add: stopScreenShare_def on_shareClient_def Let_def)
    qed
  qed
qed

lemma share_untouched_refl [simp]: "share_untouched c c"
  by (simp add: share_untouched_def)

lemma share_untouched_on_rtc [simp]:
  "share_untouched c (snd (on_rtc m x)) = share_untouched c x"
  by (simp add: share_untouched_def on_rtc_def Let_def)

lemma share_untouched_update [simp]:
  "share_untouched c (x\<lparr>localUid := u\<rparr>) = share_untouched c x"
  "share_untouched c (x\<lparr>channel := ch\<rparr>) = share_untouched c x"
  "share_untouched c (x\<lparr>joined := j\<rparr>) = share_untouched c x"
  "share_untouched c (x\<lparr>published := p\<rparr>) = share_untouched c x"
  "share_untouched c (x\<lparr>webConsole := w\<rparr>) = share_untouched c x"
  "share_untouched c (x\<lparr>rtc := r\<rparr>) = share_untouched c x"
  by (simp_all add: share_untouched_def)

lemmas await_untouched = await_preserves [where P = "share_untouched c"] for c

lemma unpublishLocalStream_untouched:
  "share_untouched c x \<Longrightarrow> share_untouched c (snd (unpublishLocalStream env x))"
  unfolding unpublishLocalStream_def Let_def
  by (rule await_untouched) simp_all

lemma leaveChannel_untouched:
  "share_untouched c x \<Longrightarrow> share_untouched c (snd (leaveChannel env x))"
  unfolding leaveChannel_def Let_def
  by (intro await_untouched unpublishLocalStream_untouched) simp_all

lemma joinChannel_untouched:
  "share_untouched c x \<Longrightarrow> share_untouched c (snd (joinChannel A env uid ch dual x))"
  unfolding joinChannel_def Let_def
  by (intro await_untouched) simp_all

lemma publishLocalStream_untouched:
  "share_untouched c x \<Longrightarrow> share_untouched c (snd (publishLocalStream env data x))"
  unfolding publishLocalStream_def Let_def
proof (intro await_untouched)
  assume "share_untouched c x"
  then show "share_untouched c
     (snd (if published (x\<lparr>webConsole := webConsole x @ [PublishLocalStreamLine (published x)]\<rparr>)
           then await
                  (unpublishLocalStream env
                    (x\<lparr>webConsole := webConsole x @ [PublishLocalStreamLine (published x)]\<rparr>))
                  (\<lambda>c2. (Resolved,
                           c2\<lparr>webConsole := webConsole c2 @ [UnpublishedLine (published c2)]\<rparr>))
           else (Resolved,
                 x\<lparr>webConsole := webConsole x @ [PublishLocalStreamLine (published x)]\<rparr>)))"
    by (auto intro!: await_untouched unpublishLocalStream_untouched)
qed simp_all

lemma perform_untouched:
  "\<not> touches_share op \<Longrightarrow> share_untouched c (perform A op c)"
proof (cases op)
  case (JoinChannel env uid ch dual)
  then show ?thesis by (simp add: joinChannel_untouched)
next
  case (LeaveChannel env)
  then show ?thesis by (simp add: leaveChannel_untouched)
next
  case (EnableDualStream env)
  then show ?thesis by (simp add: coordinator_enableDualStream_def)
next
  case (PublishLocalStream env data)
  then show ?thesis by (simp add: publishLocalStream_untouched)
next
  case (UnpublishLocalStream env)
  then show ?thesis by (simp add: unpublishLocalStream_untouched)
next
  case (Subscribe r stream)
  then show ?thesis by (simp add: share_untouched_def coordinator_subscribe_def Let_def)
next
  case (SetRemoteVideoStreamType stream type)
  then show ?thesis
    by (simp add: share_untouched_def coordinator_setRemoteVideoStreamType_def)
qed simp_all

lemma perform_completed_inv:
  assumes "completed_inv A c" and "disciplined_op A op c"
  shows "completed_inv A (perform A op c)"
proof (cases "touches_share op")
  case False
  then have "share_untouched c (perform A op c)" by (rule perform_untouched)
  with assms(1) show ?thesis
    by (simp add: completed_inv_def share_untouched_def share_completed_def)
next
  case True
  then show ?thesis
  proof (cases op)
    case (StartScreenShare env)
    show ?thesis
    proof (cases "fst (startScreenShare A env c) = Resolved")
      case True
      then show ?thesis using StartScreenShare
        by (simp add: completed_inv_def share_completed_def startScreenShare_resolved_session
            started_session_channel)
    next
      case False
      with assms(2) StartScreenShare have "\<not> shared c" by simp
      with False StartScreenShare show ?thesis
        by (simp add: completed_inv_def startScreenShare_shared_flag)
    qed
  next
    case (StopScreenShare env)
    show ?thesis
    proof (cases "fst (stopScreenShare env c) = Resolved")
      case True
      then show ?thesis using StopScreenShare
        by (simp add: completed_inv_def stopScreenShare_shared_flag)
    next
      case False
      with assms(2) StopScreenShare have "\<not> shared c" by simp
      with False StopScreenShare show ?thesis
        by (simp add: completed_inv_def stopScreenShare_shared_flag)
    qed
  next
    case (Exit env senv)
    with assms(2) have "\<not> shared c" by simp
    moreover have "same_share c (snd (exit env senv c))"
      by (rule exit_same) simp
    ultimately show ?thesis using Exit
      by (simp add: completed_inv_def same_share_def)
  qed simp_all
qed

lemma foldl_completed_inv:
  "completed_inv A c \<Longrightarrow> disciplined A c ops \<Longrightarrow>
   completed_inv A (foldl (\<lambda>c op. perform A op c) c ops)"
  by (induction ops arbitrary: c) (simp_all add: perform_completed_inv)

lemma run_completed_inv:
  "disciplined A new_AgoraWebClient ops \<Longrightarrow> completed_inv A (run A ops)"
  unfolding run_def
  by (rule foldl_completed_inv) (simp_all add: completed_inv_def new_AgoraWebClient_def)

lemma destroy_calls:
  "calls (destroy env s) =
     calls s @ (if internalTimer s then [ClearInterval] else []) @
     (if localStream s \<noteq> None then stream_teardown_calls env else [])"
  by (auto simp add: session_defs stream_teardown_calls_def)

lemma destroy_state:
  "destroy env s =
     s\<lparr>internalTimer := False, localStream := None, cur_streamID := Some 0,
       calls := calls s @ (if internalTimer s then [ClearInterval] else []) @
                (if localStream s \<noteq> None then stream_teardown_calls env else [])\<rparr>"
  by (auto simp add: session_defs stream_teardown_calls_def)


lemma two_intervals_one_clear:
  "filter (\<lambda>x. x = SetInterval 100 \<or> x = ClearInterval)
     (calls (destroy ok_env (snd (createClient ok_env ''app'' True
        (snd (createClient ok_env ''app'' True new_AgoraRTCClient)))))) =
   [SetInterval 100, SetInterval 100, ClearInterval]"
  by code_simp

section \<open>The session: publish, unpublish, destroy, createLocalStream, subscribe\<close>

text \<open>
  C5, as the code has it. On a published session \<^verbatim>\<open>publish\<close> resolves at once and changes
  nothing: no SDK call, no timer. On any other session its executor calls
  \<^verbatim>\<open>client.publish\<close> once and sets one timer of 300 ms, leaving the promise pending and the
  flag unset; once the timer has fired the published flag is true, whatever the SDK
  answered. The promise is resolved by the timer, unless the failure callback of the SDK
  ran before the timer: then it is rejected with the error of the SDK.
\<close>

theorem publish_contract:
  "(published_flag s \<longrightarrow> publish env s = (Resolved, s)) \<and>
   (\<not> published_flag s \<longrightarrow>
      publish_executor s = (Pending, call [ClientPublish (localStream s), SetTimeout 300] s) \<and>
      snd (publish env s) =
        (call [ClientPublish (localStream s), SetTimeout 300] s)\<lparr>published_flag := True\<rparr> \<and>
      fst (publish env s) =
        (case publish_failure env of
           FailsBeforeTimer e \<Rightarrow> Rejected (SdkError e)
         | NoFailure \<Rightarrow> Resolved
         | FailsAfterTimer e \<Rightarrow> Resolved))"
  by (simp add: publish_def publish_executor_def publish_on_failure_def publish_on_timer_def
      split: timed_failure.split)

theorem publish_contract_witness:
  "published_flag published_session \<and>
   publish publish_fails_env published_session = (Resolved, published_session) \<and>
   \<not> published_flag ready_session \<and>
   calls (snd (publish ok_env ready_session)) =
     calls ready_session @ [ClientPublish (localStream ready_session), SetTimeout 300] \<and>
   published_flag (snd (publish ok_env ready_session)) \<and>
   fst (publish ok_env ready_session) = Resolved"
  using publish_contract [of published_session publish_fails_env]
    publish_contract [of ready_session ok_env]
  by (simp add: example_defs session_defs)

text \<open>
  C5 as the spec words it fails: on a session that is not published, with the SDK
  reporting a publish failure before the timer, the promise of \<^verbatim>\<open>publish\<close> is rejected, not
  resolved.
\<close>

theorem publish_rejects_counterexample:
  "\<not> published_flag ready_session \<and>
   fst (publish publish_fails_env ready_session) = Rejected (SdkError ''PUBLISH_STREAM_FAILED'') \<and>
   fst (publish publish_fails_env ready_session) \<noteq> Resolved"
  by (simp add: example_defs session_defs)

text \<open>
  C6. On a session that is not published, or holds no local stream, \<^verbatim>\<open>unpublish\<close> resolves
  at once and changes nothing: no SDK call, the local stream untouched. Otherwise its
  executor calls \<^verbatim>\<open>client.unpublish\<close> and sets the 300 ms timer, leaving flag and stream as
  they are; the timer then tears the local stream down (listeners removed, playback stopped
  if playing, stream closed, reference cleared) and clears the published flag.
\<close>

theorem unpublish_contract:
  "(\<not> published_flag s \<or> localStream s = None \<longrightarrow> unpublish env s = (Resolved, s)) \<and>
   (published_flag s \<and> localStream s \<noteq> None \<longrightarrow>
      unpublish_executor s = (Pending, call [ClientUnpublish (localStream s), SetTimeout 300] s) \<and>
      snd (unpublish env s) =
        (destroyLocalStream env (call [ClientUnpublish (localStream s), SetTimeout 300] s))
          \<lparr>published_flag := False\<rparr> \<and>
      calls (snd (unpublish env s)) =
        calls s @ [ClientUnpublish (localStream s), SetTimeout 300] @ stream_teardown_calls env \<and>
      localStream (snd (unpublish env s)) = None \<and>
      \<not> published_flag (snd (unpublish env s)))"
  by (auto simp add: unpublish_def unpublish_executor_def unpublish_on_failure_def
      unpublish_on_timer_def destroyLocalStream_def unsubscribeLocalStreamEvents_def call_def
      stream_teardown_calls_def Let_def split: timed_failure.split)

theorem unpublish_contract_witness:
  "\<not> published_flag ready_session \<and>
   unpublish ok_env ready_session = (Resolved, ready_session) \<and>
   published_flag published_session \<and> localStream published_session \<noteq> None \<and>
   calls (snd (unpublish ok_env published_session)) =
     calls published_session @ [ClientUnpublish (localStream published_session), SetTimeout 300] @
     stream_teardown_calls ok_env \<and>
   localStream (snd (unpublish ok_env published_session)) = None \<and>
   \<not> published_flag (snd (unpublish ok_env published_session))"
  using unpublish_contract [of ready_session ok_env]
    unpublish_contract [of published_session ok_env]
  by (simp add: example_defs session_defs)

text \<open>
  C10. When the SDK reports a publish failure before the timer, the promise of
  \<^verbatim>\<open>publish\<close> is rejected while the published flag is still false, and the flag is true
  once the timer has fired. When it reports an unpublish failure before the timer, the
  promise of \<^verbatim>\<open>unpublish\<close> is rejected while the flag is still true and the stream still
  held, and after the timer the stream is closed and cleared and the flag is false.
\<close>

theorem publish_unpublish_not_atomic:
  "(\<not> published_flag s \<and> publish_failure env = FailsBeforeTimer e \<longrightarrow>
      fst (publish_on_failure e (publish_executor s)) = Rejected (SdkError e) \<and>
      \<not> published_flag (snd (publish_on_failure e (publish_executor s))) \<and>
      fst (publish env s) = Rejected (SdkError e) \<and>
      published_flag (snd (publish env s))) \<and>
   (published_flag s \<and> localStream s \<noteq> None \<and> unpublish_failure env = FailsBeforeTimer e \<longrightarrow>
      fst (unpublish_on_failure e (unpublish_executor s)) = Rejected (SdkError e) \<and>
      published_flag (snd (unpublish_on_failure e (unpublish_executor s))) \<and>
      localStream (snd (unpublish_on_failure e (unpublish_executor s))) = localStream s \<and>
      fst (unpublish env s) = Rejected (SdkError e) \<and>
      localStream (snd (unpublish env s)) = None \<and>
      StreamClose \<in> set (calls (snd (unpublish env s))) \<and>
      \<not> published_flag (snd (unpublish env s)))"
  by (auto simp add: session_defs)

theorem publish_unpublish_not_atomic_witness:
  "\<not> published_flag ready_session \<and>
   publish_failure publish_fails_env = FailsBeforeTimer ''PUBLISH_STREAM_FAILED'' \<and>
   fst (publish publish_fails_env ready_session) = Rejected (SdkError ''PUBLISH_STREAM_FAILED'') \<and>
   published_flag (snd (publish publish_fails_env ready_session)) \<and>
   published_flag published_session \<and> localStream published_session \<noteq> None \<and>
   unpublish_failure unpublish_fails_env = FailsBeforeTimer ''UNPUBLISH_STREAM_FAILED'' \<and>
   fst (unpublish unpublish_fails_env published_session) =
     Rejected (SdkError ''UNPUBLISH_STREAM_FAILED'') \<and>
   localStream (snd (unpublish unpublish_fails_env published_session)) = None \<and>
   \<not> published_flag (snd (unpublish unpublish_fails_env published_session))"
  using publish_unpublish_not_atomic
      [of ready_session publish_fails_env "''PUBLISH_STREAM_FAILED''"]
    publish_unpublish_not_atomic
      [of published_session unpublish_fails_env "''UNPUBLISH_STREAM_FAILED''"]
  by (simp add: example_defs session_defs)

text \<open>
  C2, as the code has it. \<^verbatim>\<open>destroy\<close> calls \<^verbatim>\<open>clearInterval\<close> once when the session holds
  an interval handle, and forgets the handle; when the session holds a local stream it
  removes the stream's listeners, stops the stream if it is playing and closes it; it
  clears the stream reference and sets the stream id to 0. It makes no other call, and
  leaves the flags \<^verbatim>\<open>_init\<close>, \<^verbatim>\<open>_joined\<close> and \<^verbatim>\<open>_published\<close> as they were. A second
  \<^verbatim>\<open>destroy\<close> changes nothing more, and makes no call. (Only the handle the session holds
  is cleared: by \<open>two_intervals_one_clear\<close> an interval started by an earlier
  \<^verbatim>\<open>createClient\<close> is not.)
\<close>

theorem destroy_effect:
  "internalTimer (destroy env s) = False \<and>
   localStream (destroy env s) = None \<and>
   cur_streamID (destroy env s) = Some 0 \<and>
   init_flag (destroy env s) = init_flag s \<and>
   joined_flag (destroy env s) = joined_flag s \<and>
   published_flag (destroy env s) = published_flag s \<and>
   console (destroy env s) = console s \<and>
   calls (destroy env s) =
     calls s @ (if internalTimer s then [ClearInterval] else []) @
     (if localStream s \<noteq> None then stream_teardown_calls env else []) \<and>
   destroy env' (destroy env s) = destroy env s"
proof -
  have "destroy env' (destroy env s) = destroy env s"
    by (simp add: session_defs split: option.split)
  then show ?thesis
    by (simp add: destroy_state)
qed

text \<open>
  C2 as the spec words it fails, on the primary session of a coordinator that has joined a
  channel and published a camera stream: after \<^verbatim>\<open>destroy\<close> the flags are not all at their
  initial values (\<^verbatim>\<open>_init\<close> and \<^verbatim>\<open>_published\<close> are still true, and the stream id is 0
  where a new session has \<^verbatim>\<open>null\<close>).
\<close>

theorem destroy_keeps_flags_counterexample:
  "init_flag (destroy ok_env (rtc publishing_coordinator)) \<and>
   published_flag (destroy ok_env (rtc publishing_coordinator)) \<and>
   cur_streamID (destroy ok_env (rtc publishing_coordinator)) = Some 0 \<and>
   \<not> (init_flag (destroy ok_env (rtc publishing_coordinator)) = init_flag new_AgoraRTCClient \<and>
      joined_flag (destroy ok_env (rtc publishing_coordinator)) = joined_flag new_AgoraRTCClient \<and>
      published_flag (destroy ok_env (rtc publishing_coordinator))
        = published_flag new_AgoraRTCClient \<and>
      localStream (destroy ok_env (rtc publishing_coordinator)) = localStream new_AgoraRTCClient \<and>
      cur_streamID (destroy ok_env (rtc publishing_coordinator))
        = cur_streamID new_AgoraRTCClient)"
  by code_simp

text \<open>
  C3, the code at the failing input: the spec carries the audio-output device
  \<open>speaker-1\<close>, the stream initializes, and \<^verbatim>\<open>setAudioOutput\<close> fails. The call is made, its
  promise is rejected, and the promise of \<^verbatim>\<open>createLocalStream\<close> is resolved all the same.
  (By \<open>createLocalStream_outcome\<close> the promise follows the answer to the stream's
  \<^verbatim>\<open>init\<close> alone, for every spec and every answer to \<^verbatim>\<open>setAudioOutput\<close>.)
\<close>

theorem createLocalStream_resolves_when_setAudioOutput_fails:
  "audioOutputDevice speaker_spec = Some ''speaker-1'' \<and>
   fst (setAudioOutput speaker_fails_env ''speaker-1'' new_AgoraRTCClient)
     = Rejected (SdkError ''NOT_SUPPORTED'') \<and>
   fst (createLocalStream speaker_fails_env speaker_spec new_AgoraRTCClient) = Resolved \<and>
   ClientSetAudioOutput ''speaker-1'' \<in>
     set (calls (snd (createLocalStream speaker_fails_env speaker_spec new_AgoraRTCClient)))"
  by (simp add: example_defs session_defs)

text \<open>
  C9. \<^verbatim>\<open>subscribe\<close> returns normally whatever the SDK answers, on the session and through
  the coordinator; a subscription failure adds one console line to the session and changes
  nothing else.
\<close>

theorem subscribe_failure_only_logged:
  "fst (subscribe r stream s) = Returned \<and>
   snd (subscribe (Fail e) stream s) =
     (call [ClientSubscribe stream] s)\<lparr>console := console s @ [SubscribeFailedLine e]\<rparr> \<and>
   fst (coordinator_subscribe r stream c) = Returned \<and>
   snd (coordinator_subscribe (Fail e) stream c) =
     c\<lparr>rtc := (call [ClientSubscribe stream] (rtc c))
               \<lparr>console := console (rtc c) @ [SubscribeFailedLine e]\<rparr>\<rparr>"
  by (simp add: subscribe_def coordinator_subscribe_def call_def Let_def)

section \<open>The coordinator\<close>

text \<open>
  C1, as the code has it, for a coordinator that holds a screen-share session.
  \<^verbatim>\<open>stopScreenShare\<close> resolves when the unpublish of that session resolves and the SDK
  acknowledges the leave; it is rejected with the error of the first of the two that fails.
  The shared flag is false after a \<^verbatim>\<open>stopScreenShare\<close> that resolved, and keeps its value
  otherwise.
\<close>

theorem stopScreenShare_shared:
  assumes "shareClient c = Some sc"
  shows "fst (stopScreenShare env c) =
           (case fst (unpublish env sc) of
              Resolved \<Rightarrow> settle (leave_reply env)
            | Rejected e \<Rightarrow> Rejected e
            | Pending \<Rightarrow> Pending) \<and>
         shared (snd (stopScreenShare env c)) =
           (if fst (stopScreenShare env c) = Resolved then False else shared c)"
proof (cases "unpublish env sc")
  case (Pair r s')
  show ?thesis
  proof (cases r)
    case Resolved
    with Pair assms show ?thesis
      by (cases "leave_reply env")
         (simp_all add: stopScreenShare_def on_shareClient_def leave_def sync_def Let_def)
  next
    case Pending
    with Pair assms show ?thesis
      by (simp add: stopScreenShare_def on_shareClient_def Let_def)
  next
    case (Rejected e)
    with Pair assms show ?thesis
      by (simp add: stopScreenShare_def on_shareClient_def Let_def)
  qed
qed

theorem stopScreenShare_shared_witness:
  "shareClient sharing_coordinator = Some sharing_session \<and>
   shared sharing_coordinator \<and>
   fst (stopScreenShare ok_env sharing_coordinator) = Resolved \<and>
   \<not> shared (snd (stopScreenShare ok_env sharing_coordinator))"
proof -
  have sc: "shareClient sharing_coordinator = Some sharing_session"
    by code_simp
  have sh: "shared sharing_coordinator"
    by code_simp
  have un: "fst (unpublish ok_env sharing_session) = Resolved"
    by code_simp
  have lr: "leave_reply ok_env = Ack"
    by (simp add: ok_env_def)
  from stopScreenShare_shared [OF sc, of ok_env] un lr sc sh show ?thesis
    by simp
qed

text \<open>
  C1 as the spec words it fails: the coordinator shares its screen, the SDK rejects the
  leave of the screen-share session, and after \<^verbatim>\<open>stopScreenShare\<close> (rejected with that
  error) the shared flag is still true.
\<close>

theorem stopScreenShare_leave_fails_counterexample:
  "shareClient sharing_coordinator \<noteq> None \<and>
   shared sharing_coordinator \<and>
   fst (stopScreenShare leave_fails_env sharing_coordinator) = Rejected (SdkError ''LEAVE_FAILED'') \<and>
   shared (snd (stopScreenShare leave_fails_env sharing_coordinator))"
  by code_simp

text \<open>
  C4, as the code has it. \<^verbatim>\<open>joinChannel\<close> records the uid it is given. \<^verbatim>\<open>startScreenShare\<close>
  leaves that uid alone and joins the screen-share session under \<open>SHARE_ID\<close> and no other
  id; when it resolves, the session has joined exactly once, under \<open>SHARE_ID\<close>, and its
  stream id is \<open>SHARE_ID\<close>. The id differs from the primary uid exactly when that uid is
  not 7.
\<close>

theorem startScreenShare_uses_SHARE_ID:
  "localUid (snd (joinChannel A env uid ch dual c)) = uid \<and>
   localUid (snd (startScreenShare A senv c')) = localUid c' \<and>
   set (join_uids (share_calls (snd (startScreenShare A senv c')))) \<subseteq> {SHARE_ID} \<and>
   (fst (startScreenShare A senv c') = Resolved \<longrightarrow>
      join_uids (share_calls (snd (startScreenShare A senv c'))) = [SHARE_ID] \<and>
      map_option cur_streamID (shareClient (snd (startScreenShare A senv c'))) =
        Some (Some SHARE_ID)) \<and>
   (SHARE_ID \<noteq> localUid c') = (localUid c' \<noteq> 7)"
proof -
  have "join_uids (share_calls (snd (startScreenShare A senv c'))) = [SHARE_ID] \<and>
        map_option cur_streamID (shareClient (snd (startScreenShare A senv c'))) =
          Some (Some SHARE_ID)"
    if "fst (startScreenShare A senv c') = Resolved"
    by (simp add: startScreenShare_resolved [OF that] share_calls_def)
  moreover have "(SHARE_ID \<noteq> localUid c') = (localUid c' \<noteq> 7)"
    by (auto simp add: SHARE_ID_def)
  ultimately show ?thesis
    using joinChannel_localUid [of A env uid ch dual c] startScreenShare_localUid [of A senv c']
      startScreenShare_join_uids [of A senv c']
    by blast
qed

theorem startScreenShare_uses_SHARE_ID_witness:
  "localUid (snd (joinChannel ''app'' ok_env 42 ''room1'' False new_AgoraWebClient)) = 42 \<and>
   fst (startScreenShare ''app'' ok_env joined_coordinator) = Resolved \<and>
   join_uids (share_calls (snd (startScreenShare ''app'' ok_env joined_coordinator))) = [7] \<and>
   localUid (snd (startScreenShare ''app'' ok_env joined_coordinator)) = 42"
proof -
  have r: "fst (startScreenShare ''app'' ok_env joined_coordinator) = Resolved"
    by code_simp
  have u: "localUid joined_coordinator = 42"
    by code_simp
  from startScreenShare_uses_SHARE_ID
         [of "''app''" ok_env 42 "''room1''" False new_AgoraWebClient ok_env joined_coordinator]
       r u
  show ?thesis by (simp add: SHARE_ID_def)
qed

text \<open>
  C4 as the spec words it fails: \<^verbatim>\<open>joinChannel\<close> is called with uid 7, and
  \<^verbatim>\<open>startScreenShare\<close> joins the screen-share session under 7 as well.
\<close>

theorem share_id_equals_uid_counterexample:
  "localUid uid7_coordinator = 7 \<and>
   join_uids (calls (rtc uid7_coordinator)) = [7] \<and>
   fst (startScreenShare ''app'' ok_env uid7_coordinator) = Resolved \<and>
   join_uids (share_calls (snd (startScreenShare ''app'' ok_env uid7_coordinator))) = [7] \<and>
   localUid (snd (startScreenShare ''app'' ok_env uid7_coordinator)) = 7"
  by code_simp

text \<open>
  C7. After a \<^verbatim>\<open>leaveChannel\<close> that resolved, \<open>joined\<close> and \<open>published\<close> are false. The
  primary session has gone through unpublish, leave, \<^verbatim>\<open>destroy\<close> and \<^verbatim>\<open>destroyClient\<close> in
  that order, and its log shows it: the unpublish call with its timer and stream teardown
  (when the session was published with a stream), then the leave call, then the teardown
  of timer, stream and client listeners. A second \<^verbatim>\<open>leaveChannel\<close> raises no error of its
  own: it unpublishes nothing, and settles as the SDK answers its leave call (resolved when
  the SDK acknowledges it).
\<close>

theorem leaveChannel_teardown:
  assumes "fst (leaveChannel env c) = Resolved"
  shows "\<not> joined (snd (leaveChannel env c)) \<and>
         \<not> published (snd (leaveChannel env c)) \<and>
         rtc (snd (leaveChannel env c)) =
           destroyClient (destroy env (snd (leave env (snd (unpublish env (rtc c)))))) \<and>
         calls (rtc (snd (leaveChannel env c))) =
           calls (rtc c) @
           (if published_flag (rtc c) \<and> localStream (rtc c) \<noteq> None
            then [ClientUnpublish (localStream (rtc c)), SetTimeout 300] @
                 stream_teardown_calls env
            else []) @
           [ClientLeave] @
           (if internalTimer (rtc c) then [ClearInterval] else []) @
           (if \<not> published_flag (rtc c) \<and> localStream (rtc c) \<noteq> None
            then stream_teardown_calls env else []) @
           map ClientOff clientEvents \<and>
         fst (leaveChannel env' (snd (leaveChannel env c))) = settle (leave_reply env') \<and>
         fst (leaveChannel env' (snd (leaveChannel env c))) \<noteq> Rejected TypeError"
proof -
  note st = leaveChannel_resolved_state [OF assms]
  have "localStream (rtc (snd (leaveChannel env c))) = None"
    by (simp add: st teardown_localStream)
  then have again: "fst (leaveChannel env' (snd (leaveChannel env c))) = settle (leave_reply env')"
    by (rule leaveChannel_without_stream)
  have flags: "\<not> joined (snd (leaveChannel env c)) \<and> \<not> published (snd (leaveChannel env c))"
    by (simp add: st)
  have sess: "rtc (snd (leaveChannel env c)) =
      destroyClient (destroy env (snd (leave env (snd (unpublish env (rtc c))))))"
    by (simp add: st)
  from flags sess again show ?thesis
    by (simp only: teardown_calls settle_not_TypeError simp_thms)
qed

theorem leaveChannel_teardown_witness:
  "fst (leaveChannel ok_env publishing_coordinator) = Resolved \<and>
   joined publishing_coordinator \<and> published publishing_coordinator \<and>
   \<not> joined (snd (leaveChannel ok_env publishing_coordinator)) \<and>
   \<not> published (snd (leaveChannel ok_env publishing_coordinator)) \<and>
   calls (rtc (snd (leaveChannel ok_env publishing_coordinator))) =
     calls (rtc publishing_coordinator) @
     [ClientUnpublish (localStream (rtc publishing_coordinator)), SetTimeout 300] @
     stream_teardown_calls ok_env @ [ClientLeave, ClearInterval] @ map ClientOff clientEvents \<and>
   fst (leaveChannel ok_env (snd (leaveChannel ok_env publishing_coordinator))) = Resolved"
proof -
  have r: "fst (leaveChannel ok_env publishing_coordinator) = Resolved"
    by code_simp
  have f: "joined publishing_coordinator \<and> published publishing_coordinator \<and>
           published_flag (rtc publishing_coordinator) \<and>
           localStream (rtc publishing_coordinator) \<noteq> None \<and>
           internalTimer (rtc publishing_coordinator)"
    by code_simp
  have lr: "leave_reply ok_env = Ack"
    by (simp add: ok_env_def)
  note th = leaveChannel_teardown [OF r, of ok_env]
  from th have fl: "\<not> joined (snd (leaveChannel ok_env publishing_coordinator)) \<and>
      \<not> published (snd (leaveChannel ok_env publishing_coordinator))"
    by blast
  from th have "calls (rtc (snd (leaveChannel ok_env publishing_coordinator))) =
      calls (rtc publishing_coordinator) @
      (if published_flag (rtc publishing_coordinator) \<and>
          localStream (rtc publishing_coordinator) \<noteq> None
       then [ClientUnpublish (localStream (rtc publishing_coordinator)), SetTimeout 300] @
            stream_teardown_calls ok_env
       else []) @
      [ClientLeave] @
      (if internalTimer (rtc publishing_coordinator) then [ClearInterval] else []) @
      (if \<not> published_flag (rtc publishing_coordinator) \<and>
          localStream (rtc publishing_coordinator) \<noteq> None
       then stream_teardown_calls ok_env else []) @
      map ClientOff clientEvents"
    by (elim conjE)
  with f have ce: "calls (rtc (snd (leaveChannel ok_env publishing_coordinator))) =
      calls (rtc publishing_coordinator) @
      [ClientUnpublish (localStream (rtc publishing_coordinator)), SetTimeout 300] @
      stream_teardown_calls ok_env @ [ClientLeave, ClearInterval] @ map ClientOff clientEvents"
    by simp
  from th have "fst (leaveChannel ok_env (snd (leaveChannel ok_env publishing_coordinator))) =
      settle (leave_reply ok_env)"
    by (elim conjE)
  with lr have ag:
    "fst (leaveChannel ok_env (snd (leaveChannel ok_env publishing_coordinator))) = Resolved"
    by simp
  from r f fl ce ag show ?thesis
    by (simp only: simp_thms)
qed

text \<open>
  C8, as the code has it. In every state a run reaches, \<open>shared\<close> implies that the
  coordinator holds a screen-share session. \<^verbatim>\<open>startScreenShare\<close> sets \<open>shared\<close> exactly
  when it resolves and leaves it alone otherwise; when it resolves, the screen-share session
  has initialized its stream and client, joined the channel under \<open>SHARE_ID\<close> and
  published, in that order, with its published flag set. \<^verbatim>\<open>stopScreenShare\<close> clears
  \<open>shared\<close> exactly when it resolves. Every other operation but \<^verbatim>\<open>exit\<close> leaves
  \<open>shared\<close> and the screen-share session as they are. So in every state reached by a run
  in which, while \<open>shared\<close> is true, every \<^verbatim>\<open>startScreenShare\<close> and \<^verbatim>\<open>stopScreenShare\<close>
  resolves and \<^verbatim>\<open>exit\<close> is not called, \<open>shared\<close> implies that the screen-share session
  exists and is in the state its completed join and publish left it in.
\<close>

theorem shared_implies_share_session:
  "(shared (run A ops) \<longrightarrow> shareClient (run A ops) \<noteq> None) \<and>
   (fst (startScreenShare A env c) = Resolved \<longrightarrow>
      shared (snd (startScreenShare A env c)) \<and>
      map_option published_flag (shareClient (snd (startScreenShare A env c))) = Some True \<and>
      share_calls (snd (startScreenShare A env c)) =
        [CreateClient, CreateStream (shareStreamSpec\<lparr>mirror := Some False\<rparr>), StreamInit] @
        map StreamOn streamEvents @ [ClientInit A] @ map ClientOn clientEvents @
        [ClientJoin SHARE_ID (channel c),
         ClientPublish (Some (shareStreamSpec\<lparr>mirror := Some False\<rparr>)), SetTimeout 300] \<and>
      shareClient (snd (startScreenShare A env c)) = Some (started_session A (channel c)) \<and>
      share_completed A (snd (startScreenShare A env c))) \<and>
   shared (snd (startScreenShare A env c)) =
     (if fst (startScreenShare A env c) = Resolved then True else shared c) \<and>
   shared (snd (stopScreenShare env c)) =
     (if fst (stopScreenShare env c) = Resolved then False else shared c) \<and>
   (\<not> touches_share op \<longrightarrow>
      shared (perform A op c) = shared c \<and> shareClient (perform A op c) = shareClient c) \<and>
   (disciplined A new_AgoraWebClient ops \<and> shared (run A ops) \<longrightarrow>
      share_completed A (run A ops))"
proof -
  have p1: "shared (run A ops) \<longrightarrow> shareClient (run A ops) \<noteq> None"
    using run_share_inv [of A ops] by (simp add: share_inv_def)
  have p2: "shared (snd (startScreenShare A env c)) \<and>
      map_option published_flag (shareClient (snd (startScreenShare A env c))) = Some True \<and>
      share_calls (snd (startScreenShare A env c)) =
        [CreateClient, CreateStream (shareStreamSpec\<lparr>mirror := Some False\<rparr>), StreamInit] @
        map StreamOn streamEvents @ [ClientInit A] @ map ClientOn clientEvents @
        [ClientJoin SHARE_ID (channel c),
         ClientPublish (Some (shareStreamSpec\<lparr>mirror := Some False\<rparr>)), SetTimeout 300] \<and>
      shareClient (snd (startScreenShare A env c)) = Some (started_session A (channel c)) \<and>
      share_completed A (snd (startScreenShare A env c))"
    if r: "fst (startScreenShare A env c) = Resolved"
  proof -
    have "shareClient (snd (startScreenShare A env c)) = Some (started_session A (channel c))"
      by (simp add: startScreenShare_resolved_session [OF r])
    moreover from this have "share_completed A (snd (startScreenShare A env c))"
      by (simp add: share_completed_def started_session_channel)
    moreover have "shared (snd (startScreenShare A env c)) \<and>
      map_option published_flag (shareClient (snd (startScreenShare A env c))) = Some True \<and>
      share_calls (snd (startScreenShare A env c)) =
        [CreateClient, CreateStream (shareStreamSpec\<lparr>mirror := Some False\<rparr>), StreamInit] @
        map StreamOn streamEvents @ [ClientInit A] @ map ClientOn clientEvents @
        [ClientJoin SHARE_ID (channel c),
         ClientPublish (Some (shareStreamSpec\<lparr>mirror := Some False\<rparr>)), SetTimeout 300]"
      by (simp add: startScreenShare_resolved [OF r] share_calls_def)
    ultimately show ?thesis by blast
  qed
  have p3: "shared (perform A op c) = shared c \<and> shareClient (perform A op c) = shareClient c"
    if "\<not> touches_share op"
    using perform_untouched [OF that, of c A] by (simp add: share_untouched_def)
  have p4: "share_completed A (run A ops)"
    if "disciplined A new_AgoraWebClient ops" and "shared (run A ops)"
    using run_completed_inv [OF that(1)] that(2) by (simp add: completed_inv_def)
  from p1 p2 p3 p4 startScreenShare_shared_flag [of A env c] stopScreenShare_shared_flag [of env c]
  show ?thesis by blast
qed

theorem shared_implies_share_session_witness:
  "shared (run ''app'' persist_ops) \<and>
   shareClient (run ''app'' persist_ops) \<noteq> None \<and>
   disciplined ''app'' new_AgoraWebClient persist_ops \<and>
   share_completed ''app'' (run ''app'' persist_ops) \<and>
   fst (startScreenShare ''app'' ok_env joined_coordinator) = Resolved \<and>
   shared (snd (startScreenShare ''app'' ok_env joined_coordinator)) \<and>
   map_option published_flag (shareClient (snd (startScreenShare ''app'' ok_env joined_coordinator)))
     = Some True \<and>
   \<not> touches_share (PublishLocalStream ok_env camera_spec) \<and>
   shareClient (perform ''app'' (PublishLocalStream ok_env camera_spec) joined_coordinator)
     = shareClient joined_coordinator"
proof -
  have s: "shared (run ''app'' persist_ops)"
    by code_simp
  have d: "disciplined ''app'' new_AgoraWebClient persist_ops"
    by code_simp
  have r: "fst (startScreenShare ''app'' ok_env joined_coordinator) = Resolved"
    by code_simp
  have t: "\<not> touches_share (PublishLocalStream ok_env camera_spec)"
    by simp
  from shared_implies_share_session
         [of "''app''" persist_ops ok_env joined_coordinator
             "PublishLocalStream ok_env camera_spec"] s d r t
  show ?thesis by blast
qed

text \<open>
  C8 as the spec words it fails: the coordinator shares its screen, then
  \<^verbatim>\<open>startScreenShare\<close> is called again and the new stream fails to initialize. \<open>shared\<close>
  is still true, and the screen-share session is the new one: it has created a stream and
  called its \<^verbatim>\<open>init\<close>, it has neither joined nor published, and its published flag is
  false.
\<close>

theorem shared_without_joined_session_counterexample:
  "shared (run ''app'' failed_restart_ops) \<and>
   map_option published_flag (shareClient (run ''app'' failed_restart_ops)) = Some False \<and>
   share_calls (run ''app'' failed_restart_ops) =
     [CreateClient, CreateStream (shareStreamSpec\<lparr>mirror := Some False\<rparr>), StreamInit]"
  by code_simp

end
